theory Spec2Isabelle
  imports Complex_Main
begin

section \<open>Hypercomplex number types of the Stephan namespace\<close>

text \<open>
  The library consists of three class templates over a scalar type \<open>T\<close>:
  \<open>complex<T>\<close> and \<open>octonion<T>\<close> (complex.h) and \<open>quaternion<T>\<close>
  (quaternions.h). Each class is a record of its private members, each member function a
  HOL function that returns the newly constructed value. The template parameter is a
  type variable; an operation asks of it only the scalar operations its body uses.
  The norms, which call \<open>std::sqrt\<close>, are modelled over the real numbers, where
  \<open>sqrt\<close> is the real square root. The member \<open>complex::sqrt\<close> is modelled over
  the scalar type's own arithmetic, which is a parameter.
\<close>

subsection \<open>The arithmetic of the scalar type in \<open>complex::sqrt\<close>\<close>












subsection \<open>complex.h: class complex\<close>

record 'a complex_t =
  real_part :: 'a
  imaginary_part :: 'a
  use_electric_syntax :: bool

text \<open>
  The constructor \<open>complex(T re = 0, T im = 0, bool flag = false)\<close>. Every member
  function builds its result with two arguments, so the flag of a result is \<open>false\<close>.
\<close>

definition complex_ctor3 :: "'a \<Rightarrow> 'a \<Rightarrow> bool \<Rightarrow> 'a complex_t" where
  "complex_ctor3 re im flag =
     \<lparr>real_part = re, imaginary_part = im, use_electric_syntax = flag\<rparr>"

definition complex_ctor :: "'a \<Rightarrow> 'a \<Rightarrow> 'a complex_t" where
  "complex_ctor re im = complex_ctor3 re im False"

definition complex_default :: "'a::zero complex_t" where
  "complex_default = complex_ctor 0 0"

definition Re_c :: "'a complex_t \<Rightarrow> 'a" where
  "Re_c z = real_part z"

definition Im_c :: "'a complex_t \<Rightarrow> 'a" where
  "Im_c z = imaginary_part z"

definition UseJInOutput :: "bool \<Rightarrow> 'a complex_t \<Rightarrow> 'a complex_t" where
  "UseJInOutput flag z = z\<lparr>use_electric_syntax := flag\<rparr>"

text \<open>\<open>operator==\<close> compares the two components and ignores the output flag.\<close>

definition complex_eq :: "'a complex_t \<Rightarrow> 'a complex_t \<Rightarrow> bool" where
  "complex_eq z rhs \<longleftrightarrow>
     real_part z = real_part rhs \<and> imaginary_part z = imaginary_part rhs"

definition complex_conjugate :: "'a::uminus complex_t \<Rightarrow> 'a complex_t" where
  "complex_conjugate z = complex_ctor (real_part z) (- (imaginary_part z))"

definition complex_add :: "'a::plus complex_t \<Rightarrow> 'a complex_t \<Rightarrow> 'a complex_t" where
  "complex_add z rhs =
     complex_ctor (real_part z + real_part rhs) (imaginary_part z + imaginary_part rhs)"

definition complex_add_scalar :: "'a::plus complex_t \<Rightarrow> 'a \<Rightarrow> 'a complex_t" where
  "complex_add_scalar z v = complex_ctor (real_part z + v) (imaginary_part z)"

definition complex_sub :: "'a::minus complex_t \<Rightarrow> 'a complex_t \<Rightarrow> 'a complex_t" where
  "complex_sub z rhs =
     complex_ctor (real_part z - real_part rhs) (imaginary_part z - imaginary_part rhs)"

definition complex_sub_scalar :: "'a::minus complex_t \<Rightarrow> 'a \<Rightarrow> 'a complex_t" where
  "complex_sub_scalar z v = complex_ctor (real_part z - v) (imaginary_part z)"

definition complex_mul ::
  "'a::{plus,minus,times} complex_t \<Rightarrow> 'a complex_t \<Rightarrow> 'a complex_t" where
  "complex_mul z rhs =
     complex_ctor
       ((real_part z * real_part rhs) - (imaginary_part z * imaginary_part rhs))
       ((real_part z * imaginary_part rhs) + (imaginary_part z * real_part rhs))"

definition complex_mul_scalar :: "'a::times complex_t \<Rightarrow> 'a \<Rightarrow> 'a complex_t" where
  "complex_mul_scalar z v = complex_ctor (real_part z * v) (imaginary_part z * v)"

text \<open>
  Division carries \<open>static_assert(is_floating_point<T>::value)\<close>: the scalar type must
  have true division, here the sort \<open>field\<close>.
\<close>

definition complex_div :: "'a::field complex_t \<Rightarrow> 'a complex_t \<Rightarrow> 'a complex_t" where
  "complex_div z rhs =
     (let divisor = (real_part rhs * real_part rhs) + (imaginary_part rhs * imaginary_part rhs);
          real_numerator =
            (real_part z * real_part rhs) + (imaginary_part z * imaginary_part rhs);
          imaginary_numerator =
            (imaginary_part z * real_part rhs) - (real_part z * imaginary_part rhs)
      in complex_ctor (real_numerator / divisor) (imaginary_numerator / divisor))"

definition complex_div_scalar :: "'a::field complex_t \<Rightarrow> 'a \<Rightarrow> 'a complex_t" where
  "complex_div_scalar z v = complex_ctor (real_part z / v) (imaginary_part z / v)"


definition complex_norm :: "real complex_t \<Rightarrow> real" where
  "complex_norm z =
     sqrt ((real_part z * real_part z) + (imaginary_part z * imaginary_part z))"

text \<open>
  The symbol that the stream output operator chooses (line 130). The statement after it
  has no parentheses around its conditional, so the conditional's condition is the whole
  of \<open>out << rhs.Re() << (rhs->Im()>=0)\<close> and neither branch is written to the
  stream; that statement is not well-typed and is not modelled.
\<close>

definition complex_tag :: "'a complex_t \<Rightarrow> char" where
  "complex_tag rhs = (if use_electric_syntax rhs then CHR ''j'' else CHR ''i'')"

text \<open>The operators with the scalar on the left (\<open>T::operator+\<close> and its siblings).\<close>

definition scalar_add_complex :: "'a::plus \<Rightarrow> 'a complex_t \<Rightarrow> 'a complex_t" where
  "scalar_add_complex this v = complex_ctor (Re_c v + this) (Im_c v)"

definition scalar_sub_complex :: "'a::{minus,uminus} \<Rightarrow> 'a complex_t \<Rightarrow> 'a complex_t" where
  "scalar_sub_complex this v = complex_ctor (this - Re_c v) (- Im_c v)"

definition scalar_mul_complex :: "'a::times \<Rightarrow> 'a complex_t \<Rightarrow> 'a complex_t" where
  "scalar_mul_complex this v = complex_ctor (this * Re_c v) (this * Im_c v)"

definition scalar_div_complex :: "'a::field \<Rightarrow> 'a complex_t \<Rightarrow> 'a complex_t" where
  "scalar_div_complex this v = complex_div (complex_ctor this 0) v"

subsection \<open>complex.h: class octonion\<close>

text \<open>
  The class has the two members \<open>real_part\<close> and \<open>imaginary_part\<close>; the third
  constructor argument has no member to go to and no function passes it.
\<close>

record 'a octonion =
  real_part_o :: 'a
  imaginary_part_o :: 'a

definition octonion_ctor :: "'a \<Rightarrow> 'a \<Rightarrow> 'a octonion" where
  "octonion_ctor re im = \<lparr>real_part_o = re, imaginary_part_o = im\<rparr>"

definition octonion_default :: "'a::zero octonion" where
  "octonion_default = octonion_ctor 0 0"

definition Re_o :: "'a octonion \<Rightarrow> 'a" where
  "Re_o z = real_part_o z"

definition Im_o :: "'a octonion \<Rightarrow> 'a" where
  "Im_o z = imaginary_part_o z"

definition octonion_eq :: "'a octonion \<Rightarrow> 'a octonion \<Rightarrow> bool" where
  "octonion_eq z rhs \<longleftrightarrow>
     real_part_o z = real_part_o rhs \<and> imaginary_part_o z = imaginary_part_o rhs"

definition octonion_conjugate :: "'a::uminus octonion \<Rightarrow> 'a octonion" where
  "octonion_conjugate z = octonion_ctor (real_part_o z) (- (imaginary_part_o z))"

definition octonion_add :: "'a::plus octonion \<Rightarrow> 'a octonion \<Rightarrow> 'a octonion" where
  "octonion_add z rhs =
     octonion_ctor (real_part_o z + real_part_o rhs) (imaginary_part_o z + imaginary_part_o rhs)"

definition octonion_add_scalar :: "'a::plus octonion \<Rightarrow> 'a \<Rightarrow> 'a octonion" where
  "octonion_add_scalar z v = octonion_ctor (real_part_o z + v) (imaginary_part_o z)"

definition octonion_sub :: "'a::minus octonion \<Rightarrow> 'a octonion \<Rightarrow> 'a octonion" where
  "octonion_sub z rhs =
     octonion_ctor (real_part_o z - real_part_o rhs) (imaginary_part_o z - imaginary_part_o rhs)"

definition octonion_sub_scalar :: "'a::minus octonion \<Rightarrow> 'a \<Rightarrow> 'a octonion" where
  "octonion_sub_scalar z v = octonion_ctor (real_part_o z - v) (imaginary_part_o z)"

text \<open>
  The source line of \<open>operator*\<close> closes one parenthesis more than it opens and has
  no model here.
\<close>

definition octonion_mul_scalar :: "'a::times octonion \<Rightarrow> 'a \<Rightarrow> 'a octonion" where
  "octonion_mul_scalar z v = octonion_ctor (real_part_o z * v) (imaginary_part_o z * v)"

text \<open>
  The quotient: \<open>divisor\<close> is computed from \<open>this\<close>, the left operand, and the
  imaginary numerator is \<open>rhs.imaginary_part * this->real_part -
  rhs.real_part * this->imaginary_part\<close>.
\<close>

definition octonion_div :: "'a::field octonion \<Rightarrow> 'a octonion \<Rightarrow> 'a octonion" where
  "octonion_div z rhs =
     (let divisor = (real_part_o z * real_part_o z) + (imaginary_part_o z * imaginary_part_o z);
          real_numerator =
            (real_part_o z * real_part_o rhs) + (imaginary_part_o z * imaginary_part_o rhs);
          imaginary_numerator =
            (imaginary_part_o rhs * real_part_o z) - (real_part_o rhs * imaginary_part_o z)
      in octonion_ctor (real_numerator / divisor) (imaginary_numerator / divisor))"

definition octonion_div_scalar :: "'a::field octonion \<Rightarrow> 'a \<Rightarrow> 'a octonion" where
  "octonion_div_scalar z v = octonion_ctor (real_part_o z / v) (imaginary_part_o z / v)"

subsection \<open>quaternions.h: class quaternion\<close>

record 'a quaternion =
  real_part_q :: 'a
  i_part :: 'a
  j_part :: 'a
  k_part :: 'a

definition quaternion_ctor :: "'a \<Rightarrow> 'a \<Rightarrow> 'a \<Rightarrow> 'a \<Rightarrow> 'a quaternion" where
  "quaternion_ctor re i j k = \<lparr>real_part_q = re, i_part = i, j_part = j, k_part = k\<rparr>"

definition quaternion_default :: "'a::zero quaternion" where
  "quaternion_default = quaternion_ctor 0 0 0 0"

definition Re_q :: "'a quaternion \<Rightarrow> 'a" where
  "Re_q q = real_part_q q"

definition Im1 :: "'a quaternion \<Rightarrow> 'a" where
  "Im1 q = i_part q"

definition Im2 :: "'a quaternion \<Rightarrow> 'a" where
  "Im2 q = j_part q"

definition Im3 :: "'a quaternion \<Rightarrow> 'a" where
  "Im3 q = k_part q"

text \<open>
  \<open>operator==\<close> names a member \<open>this->i\<close> that the class does not have and has no
  model here; quaternions are compared as records.
\<close>

definition quaternion_conjugate :: "'a::uminus quaternion \<Rightarrow> 'a quaternion" where
  "quaternion_conjugate q =
     quaternion_ctor (real_part_q q) (- (i_part q)) (- (j_part q)) (- (k_part q))"

text \<open>The sum: the last argument of the constructor call is \<open>this->k_part + rhs.j_part\<close>.\<close>

definition quaternion_add :: "'a::plus quaternion \<Rightarrow> 'a quaternion \<Rightarrow> 'a quaternion" where
  "quaternion_add q rhs =
     quaternion_ctor (real_part_q q + real_part_q rhs) (i_part q + i_part rhs)
       (j_part q + j_part rhs) (k_part q + j_part rhs)"

definition quaternion_add_scalar :: "'a::plus quaternion \<Rightarrow> 'a \<Rightarrow> 'a quaternion" where
  "quaternion_add_scalar q v =
     quaternion_ctor (real_part_q q + v) (i_part q) (j_part q) (k_part q)"

definition quaternion_sub :: "'a::minus quaternion \<Rightarrow> 'a quaternion \<Rightarrow> 'a quaternion" where
  "quaternion_sub q rhs =
     quaternion_ctor (real_part_q q - real_part_q rhs) (i_part q - i_part rhs)
       (j_part q - j_part rhs) (k_part q - k_part rhs)"

definition quaternion_sub_scalar :: "'a::minus quaternion \<Rightarrow> 'a \<Rightarrow> 'a quaternion" where
  "quaternion_sub_scalar q v =
     quaternion_ctor (real_part_q q - v) (i_part q) (j_part q) (k_part q)"

definition quaternion_mul ::
  "'a::{plus,minus,times} quaternion \<Rightarrow> 'a quaternion \<Rightarrow> 'a quaternion" where
  "quaternion_mul q rhs =
     quaternion_ctor
       ((real_part_q q * real_part_q rhs) - (i_part q * i_part rhs) - (j_part q * j_part rhs)
          - (k_part q * k_part rhs))
       ((real_part_q q * i_part rhs) + (i_part q * real_part_q rhs) + (j_part q * k_part rhs)
          - (k_part q * j_part rhs))
       ((real_part_q q * j_part rhs) + (j_part q * real_part_q rhs) + (k_part q * i_part rhs)
          - (i_part q * k_part rhs))
       ((real_part_q q * k_part rhs) + (k_part q * real_part_q rhs) + (i_part q * j_part rhs)
          - (j_part q * i_part rhs))"

definition quaternion_mul_scalar :: "'a::times quaternion \<Rightarrow> 'a \<Rightarrow> 'a quaternion" where
  "quaternion_mul_scalar q v =
     quaternion_ctor (real_part_q q * v) (i_part q * v) (j_part q * v) (k_part q * v)"

definition quaternion_div_scalar :: "'a::field quaternion \<Rightarrow> 'a \<Rightarrow> 'a quaternion" where
  "quaternion_div_scalar q v =
     quaternion_ctor (real_part_q q / v) (i_part q / v) (j_part q / v) (k_part q / v)"

definition quaternion_norm :: "real quaternion \<Rightarrow> real" where
  "quaternion_norm q =
     sqrt ((real_part_q q * real_part_q q) + (i_part q * i_part q) + (j_part q * j_part q)
             + (k_part q * k_part q))"

text \<open>
  The reciprocal: \<open>base\<close> is the norm, multiplied by itself in place, and the result is
  \<open>(*this) / base\<close>, the scalar quotient of the quaternion itself.
\<close>

definition reciprocal :: "real quaternion \<Rightarrow> real quaternion" where
  "reciprocal q =
     (let base = quaternion_norm q;
          base = base * base
      in quaternion_div_scalar q base)"

definition quaternion_div :: "real quaternion \<Rightarrow> real quaternion \<Rightarrow> real quaternion" where
  "quaternion_div q rhs = quaternion_mul q (reciprocal rhs)"

section \<open>Properties\<close>

lemmas complex_ctor_defs = complex_ctor_def complex_ctor3_def

subsection \<open>Class complex\<close>

text \<open>
  C5. Dividing the complex value \<open>(a, b)\<close> by \<open>(c, d)\<close> gives the real component
  \<open>(a*c + b*d) / (c\<^sup>2 + d\<^sup>2)\<close> and the imaginary component
  \<open>(b*c - a*d) / (c\<^sup>2 + d\<^sup>2)\<close>; in particular \<open>(1, 0) / (0, 1) = (0, -1)\<close>,
  as records and under \<open>operator==\<close>.
\<close>

theorem complex_div_formula:
  fixes a b c d :: "'a::field"
  shows "Re_c (complex_div (complex_ctor a b) (complex_ctor c d))
           = (a * c + b * d) / (c\<^sup>2 + d\<^sup>2)
       \<and> Im_c (complex_div (complex_ctor a b) (complex_ctor c d))
           = (b * c - a * d) / (c\<^sup>2 + d\<^sup>2)
       \<and> complex_div (complex_ctor 1 0) (complex_ctor 0 1) = complex_ctor (0::'a) (- 1)
       \<and> complex_eq (complex_div (complex_ctor 1 0) (complex_ctor 0 1))
            (complex_ctor (0::'a) (- 1))"
  by (simp add: complex_div_def complex_ctor_defs Re_c_def Im_c_def complex_eq_def
      power2_eq_square Let_def)



text \<open>\<open>UseJInOutput\<close> chooses the symbol and leaves the components alone.\<close>

lemma complex_tag_UseJInOutput:
  "complex_tag (UseJInOutput flag z) = (if flag then CHR ''j'' else CHR ''i'')
   \<and> Re_c (UseJInOutput flag z) = Re_c z \<and> Im_c (UseJInOutput flag z) = Im_c z"
  by (simp add: complex_tag_def UseJInOutput_def Re_c_def Im_c_def)

text \<open>
  C10. With the scalar \<open>s\<close> on the left and the complex value \<open>z = (a, b)\<close>, the
  difference \<open>s - z\<close> is \<open>(s - a, -b)\<close>, which is the complex difference of \<open>(s, 0)\<close>
  and \<open>z\<close>, and the sum \<open>s + z\<close> is \<open>(s + a, b)\<close>, its imaginary component unchanged.
\<close>

theorem scalar_left_add_sub:
  fixes s a b :: "'a::ring"
  shows "scalar_sub_complex s (complex_ctor a b) = complex_ctor (s - a) (- b)
     \<and> scalar_sub_complex s (complex_ctor a b)
         = complex_sub (complex_ctor s 0) (complex_ctor a b)
     \<and> scalar_add_complex s (complex_ctor a b) = complex_ctor (s + a) b"
  by (simp add: scalar_sub_complex_def scalar_add_complex_def complex_sub_def complex_ctor_defs
      Re_c_def Im_c_def add.commute)

subsection \<open>Class quaternion\<close>

text \<open>The squared norm that \<open>reciprocal\<close> computes in \<open>base\<close>.\<close>

lemma quaternion_norm_sq:
  "quaternion_norm q * quaternion_norm q
     = real_part_q q * real_part_q q + i_part q * i_part q + j_part q * j_part q
         + k_part q * k_part q"
  by (simp add: quaternion_norm_def add_nonneg_nonneg)

text \<open>
  What \<open>reciprocal\<close> returns: every component of the quaternion, the vector part with
  its sign kept, over the sum of the squares.
\<close>

lemma reciprocal_components:
  "reciprocal (quaternion_ctor a b c d) =
     quaternion_ctor (a / (a\<^sup>2 + b\<^sup>2 + c\<^sup>2 + d\<^sup>2)) (b / (a\<^sup>2 + b\<^sup>2 + c\<^sup>2 + d\<^sup>2))
       (c / (a\<^sup>2 + b\<^sup>2 + c\<^sup>2 + d\<^sup>2)) (d / (a\<^sup>2 + b\<^sup>2 + c\<^sup>2 + d\<^sup>2))"
  by (simp add: reciprocal_def Let_def quaternion_norm_sq quaternion_div_scalar_def
      quaternion_ctor_def power2_eq_square)

text \<open>
  C1. The reciprocal of a quaternion should be its conjugate divided by the squared norm:
  the real component over \<open>a\<^sup>2 + b\<^sup>2 + c\<^sup>2 + d\<^sup>2\<close> and the negated \<open>i\<close>, \<open>j\<close>,
  \<open>k\<close> components over the same sum. The function divides the quaternion itself: at
  \<open>q = (0, 1, 0, 0)\<close> it returns \<open>q\<close>, where the conjugate over the squared norm is
  \<open>(0, -1, 0, 0)\<close>, and the product of \<open>q\<close> and its reciprocal is \<open>-1\<close>, not \<open>1\<close>.
\<close>

theorem reciprocal_keeps_vector_sign:
  "reciprocal (quaternion_ctor 0 1 0 0) = quaternion_ctor 0 1 0 0
   \<and> quaternion_div_scalar (quaternion_conjugate (quaternion_ctor 0 1 0 0))
        ((quaternion_norm (quaternion_ctor 0 1 0 0))\<^sup>2) = quaternion_ctor 0 (- 1) 0 0
   \<and> reciprocal (quaternion_ctor 0 1 0 0)
        \<noteq> quaternion_div_scalar (quaternion_conjugate (quaternion_ctor 0 1 0 0))
            ((quaternion_norm (quaternion_ctor 0 1 0 0))\<^sup>2)
   \<and> quaternion_mul (quaternion_ctor 0 1 0 0) (reciprocal (quaternion_ctor 0 1 0 0))
        = quaternion_ctor (- 1) 0 0 0"
  by (simp add: reciprocal_def Let_def quaternion_norm_def quaternion_div_scalar_def
      quaternion_conjugate_def quaternion_mul_def quaternion_ctor_def)

text \<open>What the sum returns: its \<open>k\<close> component adds the right operand's \<open>j\<close>.\<close>

lemma quaternion_add_components:
  "quaternion_add (quaternion_ctor a b c d) (quaternion_ctor a' b' c' d')
     = quaternion_ctor (a + a') (b + b') (c + c') (d + c')"
  by (simp add: quaternion_add_def quaternion_ctor_def)

text \<open>
  C2. The sum of two quaternions should be componentwise, its \<open>k\<close> component the sum of
  the operands' \<open>k\<close> components. At \<open>p = (0, 0, 0, 0)\<close> and \<open>q = (0, 0, 1, 0)\<close> the
  \<open>k\<close> component of \<open>p + q\<close> is \<open>1\<close>, where \<open>p.k + q.k\<close> is \<open>0\<close>.
\<close>

theorem quaternion_add_k_component:
  "k_part (quaternion_add (quaternion_ctor 0 0 0 0) (quaternion_ctor 0 0 1 (0::int))) = 1
   \<and> k_part (quaternion_ctor 0 0 0 (0::int)) + k_part (quaternion_ctor 0 0 1 (0::int)) = 0"
  by (simp add: quaternion_add_def quaternion_ctor_def)

text \<open>
  C6. The product of \<open>(a, b, c, d)\<close> and \<open>(a', b', c', d')\<close> is the Hamilton product;
  so \<open>(0,1,0,0) * (0,0,1,0) = (0,0,0,1)\<close> and \<open>(0,0,1,0) * (0,1,0,0) = (0,0,0,-1)\<close>.
\<close>

theorem quaternion_mul_hamilton:
  fixes a b c d a' b' c' d' :: "'a::ring_1"
  shows "quaternion_mul (quaternion_ctor a b c d) (quaternion_ctor a' b' c' d')
       = quaternion_ctor (a * a' - b * b' - c * c' - d * d')
           (a * b' + b * a' + c * d' - d * c')
           (a * c' + c * a' + d * b' - b * d')
           (a * d' + d * a' + b * c' - c * b')
     \<and> quaternion_mul (quaternion_ctor 0 1 0 0) (quaternion_ctor 0 0 1 0)
         = quaternion_ctor 0 0 0 (1::'a)
     \<and> quaternion_mul (quaternion_ctor 0 0 1 0) (quaternion_ctor 0 1 0 0)
         = quaternion_ctor 0 0 0 (- 1::'a)"
  by (simp add: quaternion_mul_def quaternion_ctor_def)

subsection \<open>Class octonion\<close>

text \<open>What the quotient returns.\<close>

lemma octonion_div_components:
  fixes a b c d :: "'a::field"
  shows "octonion_div (octonion_ctor a b) (octonion_ctor c d)
     = octonion_ctor ((a * c + b * d) / (a\<^sup>2 + b\<^sup>2)) ((d * a - c * b) / (a\<^sup>2 + b\<^sup>2))"
  by (simp add: octonion_div_def octonion_ctor_def Let_def power2_eq_square)

text \<open>
  C4. Every octonion operation should compute the formula of the complex operation on
  the same two components; the quotient of \<open>(a, b)\<close> by \<open>(c, d)\<close> should divide by the
  squared norm of the right operand, with the imaginary numerator \<open>b*c - a*d\<close>. The
  octonion quotient divides by the squared norm of the left operand and has the opposite
  imaginary numerator: \<open>(2, 0) / (1, 0)\<close> is \<open>(1/2, 0)\<close> where the complex quotient is
  \<open>(2, 0)\<close>, and \<open>(1, 0) / (0, 1)\<close> is \<open>(0, 1)\<close> where the complex quotient is
  \<open>(0, -1)\<close>.
\<close>

theorem octonion_div_differs_from_complex_div:
  "octonion_div (octonion_ctor 2 0) (octonion_ctor 1 (0::real)) = octonion_ctor (1 / 2) 0
   \<and> complex_div (complex_ctor 2 0) (complex_ctor 1 (0::real)) = complex_ctor 2 0
   \<and> octonion_div (octonion_ctor 1 0) (octonion_ctor 0 (1::real)) = octonion_ctor 0 1
   \<and> complex_div (complex_ctor 1 0) (complex_ctor 0 (1::real)) = complex_ctor 0 (- 1)"
  by (simp add: octonion_div_def octonion_ctor_def complex_div_def complex_ctor_defs Let_def)

subsection \<open>All three classes\<close>

text \<open>
  Addition of complex values and of octonions is commutative and associative, and
  addition of quaternions is associative, wherever the scalar addition is.
\<close>

lemma complex_add_commute:
  fixes a b :: "'a::ab_semigroup_add complex_t"
  shows "complex_add a b = complex_add b a"
  by (simp add: complex_add_def add.commute)

lemma complex_add_assoc:
  fixes a b c :: "'a::semigroup_add complex_t"
  shows "complex_add a (complex_add b c) = complex_add (complex_add a b) c"
  by (simp add: complex_add_def complex_ctor_defs add.assoc)

lemma octonion_add_commute:
  fixes a b :: "'a::ab_semigroup_add octonion"
  shows "octonion_add a b = octonion_add b a"
  by (simp add: octonion_add_def add.commute)

lemma octonion_add_assoc:
  fixes a b c :: "'a::semigroup_add octonion"
  shows "octonion_add a (octonion_add b c) = octonion_add (octonion_add a b) c"
  by (simp add: octonion_add_def octonion_ctor_def add.assoc)

lemma quaternion_add_assoc:
  fixes a b c :: "'a::semigroup_add quaternion"
  shows "quaternion_add a (quaternion_add b c) = quaternion_add (quaternion_add a b) c"
  by (simp add: quaternion_add_def quaternion_ctor_def add.assoc)

text \<open>
  C3. Addition should be commutative and associative for the complex, quaternion and
  octonion types. Quaternion addition is not commutative: with \<open>a = (0, 0, 1, 0)\<close> and
  \<open>b = (0, 0, 0, 0)\<close>, \<open>a + b\<close> is \<open>(0, 0, 1, 0)\<close> and \<open>b + a\<close> is \<open>(0, 0, 1, 1)\<close>.
\<close>

theorem quaternion_add_not_commutative:
  "quaternion_add (quaternion_ctor 0 0 1 0) (quaternion_ctor 0 0 0 (0::int))
     = quaternion_ctor 0 0 1 0
   \<and> quaternion_add (quaternion_ctor 0 0 0 0) (quaternion_ctor 0 0 1 (0::int))
       = quaternion_ctor 0 0 1 1
   \<and> quaternion_add (quaternion_ctor 0 0 1 0) (quaternion_ctor 0 0 0 (0::int))
       \<noteq> quaternion_add (quaternion_ctor 0 0 0 0) (quaternion_ctor 0 0 1 0)"
  by (simp add: quaternion_add_def quaternion_ctor_def)

text \<open>
  C8. Adding a scalar to, or subtracting it from, a complex value, a quaternion or an
  octonion changes the real component only: every imaginary component of \<open>x + s\<close> and
  of \<open>x - s\<close> is the corresponding component of \<open>x\<close>, and the real component is the
  sum or the difference.
\<close>

theorem scalar_add_sub_frame:
  fixes s :: "'a::{plus,minus}"
  shows "Im_c (complex_add_scalar x s) = Im_c x \<and> Im_c (complex_sub_scalar x s) = Im_c x
     \<and> Re_c (complex_add_scalar x s) = Re_c x + s
     \<and> Re_c (complex_sub_scalar x s) = Re_c x - s
     \<and> Im1 (quaternion_add_scalar q s) = Im1 q \<and> Im2 (quaternion_add_scalar q s) = Im2 q
     \<and> Im3 (quaternion_add_scalar q s) = Im3 q
     \<and> Im1 (quaternion_sub_scalar q s) = Im1 q \<and> Im2 (quaternion_sub_scalar q s) = Im2 q
     \<and> Im3 (quaternion_sub_scalar q s) = Im3 q
     \<and> Re_q (quaternion_add_scalar q s) = Re_q q + s
     \<and> Re_q (quaternion_sub_scalar q s) = Re_q q - s
     \<and> Im_o (octonion_add_scalar y s) = Im_o y \<and> Im_o (octonion_sub_scalar y s) = Im_o y
     \<and> Re_o (octonion_add_scalar y s) = Re_o y + s
     \<and> Re_o (octonion_sub_scalar y s) = Re_o y - s"
  by (simp add: complex_add_scalar_def complex_sub_scalar_def complex_ctor_defs Im_c_def Re_c_def
      quaternion_add_scalar_def quaternion_sub_scalar_def quaternion_ctor_def
      Im1_def Im2_def Im3_def Re_q_def
      octonion_add_scalar_def octonion_sub_scalar_def octonion_ctor_def Im_o_def Re_o_def)

end
